theory Spec2Isabelle
  imports Complex_Main "HOL-Library.Multiset"
begin

section \<open>Data model\<close>

text \<open>
  The types of \<^verbatim>\<open>lib/data\<close>: an emotion is a name with a score, a face
  prediction carries a bounding box and the emotion list of one face. A score is the
  real number that its (finite) double denotes; where the code computes with scores, the
  double arithmetic is a parameter (see \<open>double_ops\<close> below).
\<close>

record emotion =
  name :: string
  score :: real

type_synonym bounding_box = "real \<times> real \<times> real \<times> real"

record face_prediction =
  bbox :: bounding_box
  p_emotions :: "emotion list"

record tracked_face =
  boundingBox :: bounding_box

text \<open>
  The inbound payload after \<^verbatim>\<open>JSON.parse\<close>:
  \<^verbatim>\<open>{ face?: { predictions?, warning? }, error? }\<close>. A field that is absent is
  \<open>None\<close>. \<open>Malformed\<close> is an \<^verbatim>\<open>event.data\<close> on which \<^verbatim>\<open>JSON.parse\<close> throws.
\<close>

record face_payload =
  predictions :: "face_prediction list option"
  warning :: "string option"

record response =
  face :: "face_payload option"
  error :: "string option"

datatype message_data = Malformed | Parsed response

text \<open>
  The browser side. Every \<^verbatim>\<open>WebSocket\<close> created so far has a \<^verbatim>\<open>readyState\<close>;
  a socket is identified by its position in the list of created sockets. A recorder is
  identified by the video element it was created for.
\<close>

datatype ready_state = CONNECTING | OPEN | CLOSING | CLOSED

datatype effect =
    NewWebSocket string
  | Socket_close nat
  | Socket_send nat nat
  | VideoRecorder_create nat
  | Recorder_takePhoto nat
  | Recorder_stopRecording nat
  | OnCalibrate "emotion list"

datatype level = Warn | Err

datatype carg = Str string | Num nat

text \<open>
  The props and context of the component: the environment and the key of the
  \<^verbatim>\<open>AuthContext\<close>, the value of \<^verbatim>\<open>getApiUrlWs(authContext.environment)\<close> (that
  function is not part of the sources), and whether an \<^verbatim>\<open>onCalibrate\<close> callback
  was given.
\<close>

record props =
  environment :: string
  key :: string
  apiUrlWs :: string
  onCalibrate :: bool

text \<open>
  The refs and the state variables of \<^verbatim>\<open>FaceWidgets\<close>, the ready states of the
  sockets, the calls made to the outside (\<open>effects\<close>) and the \<^verbatim>\<open>console.warn\<close> and
  \<^verbatim>\<open>console.error\<close> calls (\<open>console\<close>; \<^verbatim>\<open>console.log\<close> is not recorded).
\<close>

record state =
  socketRef :: "nat option"
  recorderRef :: "nat option"
  photoRef :: bool
  mountRef :: bool
  recorderCreated :: bool
  numReconnects :: nat
  trackedFaces :: "tracked_face list"
  emotions :: "emotion list"
  status :: string
  sockets :: "ready_state list"
  effects :: "effect list"
  console :: "(level \<times> carg list) list"

definition initial_state :: state where
  "initial_state =
     \<lparr>socketRef = None, recorderRef = None, photoRef = False, mountRef = True,
      recorderCreated = False, numReconnects = 0, trackedFaces = [], emotions = [],
      status = [], sockets = [], effects = [], console = []\<rparr>"

definition maxReconnects :: nat where
  "maxReconnects = 3"

section \<open>The presentation layer: \<^verbatim>\<open>TopEmotions\<close>\<close>

text \<open>
  The metric of \<^verbatim>\<open>TopEmotions\<close> is computed in double arithmetic, where every
  operation rounds and the order of the operands matters. The arithmetic is a parameter:
  a type of doubles with the conversion of a number to a double (\<open>dbl\<close>, for the scores
  and for the literals 0, 100 and 50), the four operations and the comparison \<open>>\<close>.
\<close>

record 'd double_ops =
  dbl :: "real \<Rightarrow> 'd"
  fadd :: "'d \<Rightarrow> 'd \<Rightarrow> 'd"
  fsub :: "'d \<Rightarrow> 'd \<Rightarrow> 'd"
  fmul :: "'d \<Rightarrow> 'd \<Rightarrow> 'd"
  fdiv :: "'d \<Rightarrow> 'd \<Rightarrow> 'd"
  fgt :: "'d \<Rightarrow> 'd \<Rightarrow> bool"

definition pos_emotions :: "string list" where
  "pos_emotions = [''Calmness'', ''Concentration'', ''Contemplation'', ''Boredom'']"

definition neg_emotions :: "string list" where
  "neg_emotions = [''Disappointment'', ''Contempt'', ''Sadness'', ''Distress'', ''Anxiety'']"

definition pos_metric :: "'d double_ops \<Rightarrow> emotion list \<Rightarrow> 'd" where
  "pos_metric ops es =
     foldl (\<lambda>acc e. fadd ops acc (dbl ops (score e))) (dbl ops 0)
       (filter (\<lambda>e. name e \<in> set pos_emotions) es)"

definition neg_metric :: "'d double_ops \<Rightarrow> emotion list \<Rightarrow> 'd" where
  "neg_metric ops es =
     foldl (\<lambda>acc e. fsub ops acc (dbl ops (score e))) (dbl ops 0)
       (filter (\<lambda>e. name e \<in> set neg_emotions) es)"

definition val :: "'d double_ops \<Rightarrow> emotion list \<Rightarrow> 'd" where
  "val ops es =
     fdiv ops
       (fmul ops (fmul ops (fadd ops (pos_metric ops es) (neg_metric ops es)) (dbl ops 100))
          (dbl ops 100))
       (dbl ops 100)"

definition getActionMessage :: "'d double_ops \<Rightarrow> emotion list \<Rightarrow> string" where
  "getActionMessage ops es =
     (if fgt ops (val ops es) (dbl ops 50) then ''Great work, keep up your poker face. :|''
      else ''Calm down, you might be tilting!'')"

text \<open>
  \<^verbatim>\<open>emotions.sort((a, b) => b.score - a.score)\<close>: a stable sort by descending score
  (the difference of two finite doubles has the sign of their exact difference). It
  sorts the array in place and returns that same array.
\<close>

definition sort_emotions :: "emotion list \<Rightarrow> emotion list" where
  "sort_emotions es = sort_key (\<lambda>e. - score e) es"

text \<open>\<^verbatim>\<open>xs.slice(0, n)\<close> for an integer \<open>n\<close>: a negative \<open>n\<close> counts from the end.\<close>

definition slice0 :: "'a list \<Rightarrow> int \<Rightarrow> 'a list" where
  "slice0 xs n =
     (let len = int (length xs);
          k = (if n < 0 then max (len + n) 0 else min n len)
      in take (nat k) xs)"

record row =
  rank :: nat
  row_name :: string
  row_score :: real

record 'd rendered =
  rows :: "row list"
  metric :: 'd
  action :: string

text \<open>
  One render of \<^verbatim>\<open>TopEmotions\<close>: what is shown, and the contents of the \<open>emotions\<close>
  array of the props once the render is over. The metric is computed before the sort.
\<close>

definition TopEmotions ::
  "'d double_ops \<Rightarrow> emotion list \<Rightarrow> int \<Rightarrow> 'd rendered \<times> emotion list" where
  "TopEmotions ops emotions_prop numEmotions =
     (let v = val ops emotions_prop;
          msg = getActionMessage ops emotions_prop;
          sorted_prop = sort_emotions emotions_prop;
          shown = slice0 sorted_prop numEmotions
      in (\<lparr>rows = map (\<lambda>(i, e). \<lparr>rank = i + 1, row_name = name e, row_score = score e\<rparr>)
                      (enumerate 0 shown),
           metric = v, action = msg\<rparr>,
          sorted_prop))"

section \<open>The session controller and the capture loop\<close>

definition emit :: "effect \<Rightarrow> state \<Rightarrow> state" where
  "emit e s = s\<lparr>effects := effects s @ [e]\<rparr>"

definition console_warn :: "carg list \<Rightarrow> state \<Rightarrow> state" where
  "console_warn m s = s\<lparr>console := console s @ [(Warn, m)]\<rparr>"

definition console_error :: "carg list \<Rightarrow> state \<Rightarrow> state" where
  "console_error m s = s\<lparr>console := console s @ [(Err, m)]\<rparr>"

text \<open>\<^verbatim>\<open>socket.readyState\<close>; a socket that was never created counts as closed.\<close>

definition readyState :: "state \<Rightarrow> nat \<Rightarrow> ready_state" where
  "readyState s k = (if k < length (sockets s) then sockets s ! k else CLOSED)"

text \<open>
  \<^verbatim>\<open>socket.close()\<close>: the call is recorded, and a socket that is connecting or open
  starts closing; on a socket that is closing or closed the call changes nothing.
\<close>

definition socket_close :: "nat \<Rightarrow> state \<Rightarrow> state" where
  "socket_close k s =
     (let s' = emit (Socket_close k) s
      in if readyState s k = CONNECTING \<or> readyState s k = OPEN
         then s'\<lparr>sockets := (sockets s)[k := CLOSING]\<rparr> else s')"

definition connect :: "props \<Rightarrow> state \<Rightarrow> state" where
  "connect p s =
     (if (case socketRef s of None \<Rightarrow> False | Some k \<Rightarrow> readyState s k = OPEN) then s
      else
        let endpointUrl = apiUrlWs p @ ''/v0/stream/models'';
            socketUrl = endpointUrl @ ''?apikey='' @ key p;
            s1 = s\<lparr>status := ''Connecting to server...''\<rparr>;
            s2 = emit (NewWebSocket socketUrl) s1
        in s2\<lparr>sockets := sockets s2 @ [CONNECTING], socketRef := Some (length (sockets s2))\<rparr>)"

text \<open>
  \<^verbatim>\<open>sendRequest(photoBlob)\<close>; the blob is named by the recorder that took it. The
  two awaits of \<^verbatim>\<open>capturePhoto\<close> and \<^verbatim>\<open>sendRequest\<close> are taken as immediate.
\<close>

definition sendRequest :: "nat \<Rightarrow> state \<Rightarrow> state" where
  "sendRequest photoBlob s =
     (case socketRef s of
        None \<Rightarrow> console_error [Str ''No socket found''] s
      | Some k \<Rightarrow>
          if readyState s k = OPEN then emit (Socket_send k photoBlob) s
          else socket_close k
                 (console_error [Str ''Socket connection not open. Will not capture a photo''] s))"

definition capturePhoto :: "state \<Rightarrow> state" where
  "capturePhoto s =
     (case recorderRef s of
        None \<Rightarrow> console_error [Str ''No recorder found''] s
      | Some r \<Rightarrow> sendRequest r (emit (Recorder_takePhoto r) s))"

definition socketOnOpen :: "state \<Rightarrow> state" where
  "socketOnOpen s =
     (let s1 = s\<lparr>status := ''Connecting to webcam...''\<rparr>
      in case recorderRef s1 of
           Some r \<Rightarrow> capturePhoto s1
         | None \<Rightarrow>
             console_warn [Str ''No video recorder exists yet to use with the open socket''] s1)"

text \<open>\<^verbatim>\<open>stopEverything\<close>, statement by statement.\<close>

definition stop_mount :: "state \<Rightarrow> state" where
  "stop_mount s = s\<lparr>mountRef := False\<rparr>"

definition stop_socket :: "state \<Rightarrow> state" where
  "stop_socket s =
     (case socketRef s of
        Some k \<Rightarrow> (socket_close k s)\<lparr>socketRef := None\<rparr>
      | None \<Rightarrow> console_warn [Str ''Could not close socket, not initialized yet''] s)"

definition stop_recorder :: "state \<Rightarrow> state" where
  "stop_recorder s =
     (case recorderRef s of
        Some r \<Rightarrow> (emit (Recorder_stopRecording r) s)\<lparr>recorderRef := None\<rparr>
      | None \<Rightarrow> console_warn [Str ''Could not stop recorder, not initialized yet''] s)"

definition stopEverything :: "state \<Rightarrow> state" where
  "stopEverything s = stop_recorder (stop_socket (stop_mount s))"

text \<open>
  \<^verbatim>\<open>warning.replace(".", "")\<close>: with a string pattern, \<^verbatim>\<open>replace\<close> rewrites
  the first occurrence only.
\<close>

definition replace_dot :: "string \<Rightarrow> string" where
  "replace_dot w = remove1 (CHR ''.'') w"

definition response_predictions :: "response \<Rightarrow> face_prediction list" where
  "response_predictions r =
     (case face r of
        None \<Rightarrow> []
      | Some f \<Rightarrow> (case predictions f of None \<Rightarrow> [] | Some ps \<Rightarrow> ps))"

definition response_warning :: "response \<Rightarrow> string" where
  "response_warning r =
     (case face r of
        None \<Rightarrow> []
      | Some f \<Rightarrow> (case warning f of None \<Rightarrow> [] | Some w \<Rightarrow> w))"

text \<open>\<^verbatim>\<open>if (error)\<close>: an absent error and the empty string are falsy.\<close>

definition truthy :: "string option \<Rightarrow> bool" where
  "truthy e = (case e of None \<Rightarrow> False | Some m \<Rightarrow> m \<noteq> [])"

text \<open>
  The \<^verbatim>\<open>predictions.forEach\<close> loop of \<^verbatim>\<open>socketOnMessage\<close>, with the index of
  the element and the \<^verbatim>\<open>newTrackedFaces\<close> array it pushes to.
\<close>

fun predictions_forEach ::
  "props \<Rightarrow> face_prediction list \<Rightarrow> nat \<Rightarrow> tracked_face list \<times> state
     \<Rightarrow> tracked_face list \<times> state" where
  "predictions_forEach p [] dataIndex acc = acc"
| "predictions_forEach p (pred # rest) dataIndex (newTrackedFaces, s) =
     predictions_forEach p rest (Suc dataIndex)
       (newTrackedFaces @ [\<lparr>boundingBox = bbox pred\<rparr>],
        if dataIndex = 0 then
          (let newEmotions = p_emotions pred;
               s1 = s\<lparr>emotions := newEmotions\<rparr>
           in if onCalibrate p then emit (OnCalibrate newEmotions) s1 else s1)
        else s)"

definition socketOnMessage :: "props \<Rightarrow> message_data \<Rightarrow> state \<Rightarrow> state" where
  "socketOnMessage p d s =
     (let s1 = s\<lparr>status := []\<rparr>
      in case d of
           Malformed \<Rightarrow> s1
         | Parsed r \<Rightarrow>
             if truthy (error r) then
               stopEverything (console_error [Str (the (error r))] (s1\<lparr>status := the (error r)\<rparr>))
             else
               let preds = response_predictions r;
                   s2 = (if length preds = 0
                         then s1\<lparr>status := replace_dot (response_warning r), emotions := []\<rparr>
                         else s1);
                   (newTrackedFaces, s3) = predictions_forEach p preds 0 ([], s2)
               in capturePhoto (s3\<lparr>trackedFaces := newTrackedFaces\<rparr>))"

definition socketOnClose :: "props \<Rightarrow> state \<Rightarrow> state" where
  "socketOnClose p s =
     (if mountRef s then connect p (s\<lparr>status := ''Reconnecting''\<rparr>) else s)"

definition fatal_status :: "props \<Rightarrow> string" where
  "fatal_status p =
     ''Failed to connect to the Hume API ('' @ environment p @ '').'' @ [CHR 0x0A]
       @ ''      Please log out and verify that your API key is correct.''"

definition socketOnError :: "props \<Rightarrow> state \<Rightarrow> state" where
  "socketOnError p s =
     (let s0 = console_error [Str ''Socket failed to connect: ''] s
      in if numReconnects s0 \<ge> maxReconnects
         then stopEverything (s0\<lparr>status := fatal_status p\<rparr>)
         else
           let s1 = s0\<lparr>numReconnects := numReconnects s0 + 1\<rparr>
           in console_warn [Str ''Connection attempt '', Num (numReconnects s1)] s1)"

text \<open>
  \<^verbatim>\<open>onVideoReady\<close> up to its \<^verbatim>\<open>await VideoRecorder.create(...)\<close>, and what it
  does once the recorder has arrived. Other handlers can run in between.
\<close>

definition onVideoReady :: "nat \<Rightarrow> state \<Rightarrow> state" where
  "onVideoReady videoElement s =
     (if \<not> photoRef s then console_error [Str ''No photo element found''] s
      else if recorderRef s = None \<and> recorderCreated s = False
      then emit (VideoRecorder_create videoElement) (s\<lparr>recorderCreated := True\<rparr>)
      else s)"

definition onVideoReady_resume :: "nat \<Rightarrow> state \<Rightarrow> state" where
  "onVideoReady_resume recorder s =
     (let s1 = s\<lparr>recorderRef := Some recorder\<rparr>
      in if (case socketRef s1 of None \<Rightarrow> False | Some k \<Rightarrow> readyState s1 k = OPEN)
         then capturePhoto s1
         else console_warn [Str ''No socket available for sending photos''] s1)"

text \<open>
  The effect of \<^verbatim>\<open>useEffect\<close>: its body runs once the component is mounted (the
  canvas is attached to \<open>photoRef\<close> by then), its cleanup on unmount.
\<close>

definition useEffect_mount :: "props \<Rightarrow> state \<Rightarrow> state" where
  "useEffect_mount p s = connect p (s\<lparr>mountRef := True\<rparr>)"

definition useEffect_cleanup :: "state \<Rightarrow> state" where
  "useEffect_cleanup s = stopEverything s"

definition mounted :: "props \<Rightarrow> state" where
  "mounted p = useEffect_mount p (initial_state\<lparr>photoRef := True\<rparr>)"

text \<open>
  Rendering the component after a handler has run. Without an \<^verbatim>\<open>onCalibrate\<close>
  callback the JSX holds \<^verbatim>\<open><TopEmotions emotions={emotions} />\<close>, and that render
  sorts the array it is handed, which is the array of the \<open>emotions\<close> state, in place
  (the second component of \<open>TopEmotions\<close>, whatever the arithmetic and the number of
  rows). With a callback none of the emotion widgets is rendered; the callback is taken
  to leave the array alone.
\<close>

definition render :: "props \<Rightarrow> state \<Rightarrow> state" where
  "render p s = (if \<not> onCalibrate p then s\<lparr>emotions := sort_emotions (emotions s)\<rparr> else s)"

text \<open>
  What can happen to a mounted component. A socket event names the socket it is fired
  on; the browser sets that socket's ready state before the handler runs (\<open>open\<close> on
  an open socket, \<open>close\<close> on a closed one). Every handler is followed by a render. On
  unmount the canvas is detached from \<open>photoRef\<close>, the cleanup of the effect runs, and
  nothing is rendered.
\<close>

datatype event =
    SocketOpen nat
  | SocketMessage nat message_data
  | SocketClose nat
  | SocketError nat
  | VideoReady nat
  | RecorderReady nat
  | Unmount

fun step :: "props \<Rightarrow> state \<Rightarrow> event \<Rightarrow> state" where
  "step p s (SocketOpen k) =
     render p (socketOnOpen (s\<lparr>sockets := (sockets s)[k := OPEN]\<rparr>))"
| "step p s (SocketMessage k d) = render p (socketOnMessage p d s)"
| "step p s (SocketClose k) =
     render p (socketOnClose p (s\<lparr>sockets := (sockets s)[k := CLOSED]\<rparr>))"
| "step p s (SocketError k) = render p (socketOnError p s)"
| "step p s (VideoReady v) = render p (onVideoReady v s)"
| "step p s (RecorderReady r) = render p (onVideoReady_resume r s)"
| "step p s Unmount = useEffect_cleanup (s\<lparr>photoRef := False\<rparr>)"

definition run :: "props \<Rightarrow> state \<Rightarrow> event list \<Rightarrow> state" where
  "run p s evs = foldl (step p) s evs"

text \<open>Counting the calls made to the outside.\<close>

fun is_connect :: "effect \<Rightarrow> bool" where
  "is_connect (NewWebSocket u) = True"
| "is_connect e = False"


fun is_create :: "effect \<Rightarrow> bool" where
  "is_create (VideoRecorder_create v) = True"
| "is_create e = False"

fun is_error_event :: "event \<Rightarrow> bool" where
  "is_error_event (SocketError k) = True"
| "is_error_event ev = False"

definition connects :: "state \<Rightarrow> nat" where
  "connects s = length (filter is_connect (effects s))"

definition creates :: "state \<Rightarrow> nat" where
  "creates s = length (filter is_create (effects s))"

text \<open>The calls a teardown makes in a state: one for the socket and one for the recorder it finds.\<close>

definition teardown_effects :: "state \<Rightarrow> effect list" where
  "teardown_effects s =
     (case socketRef s of Some k \<Rightarrow> [Socket_close k] | None \<Rightarrow> [])
       @ (case recorderRef s of Some r \<Rightarrow> [Recorder_stopRecording r] | None \<Rightarrow> [])"

section \<open>Reference definitions and example inputs\<close>

text \<open>
  What one inbound message does to the emotion state: a message is \<open>accepted\<close> when it
  parses and carries no error; \<open>primary_emotions\<close> is the emotion list of its first
  prediction, and the empty list when it has no prediction.
\<close>

definition accepted :: "message_data \<Rightarrow> bool" where
  "accepted d = (case d of Malformed \<Rightarrow> False | Parsed r \<Rightarrow> \<not> truthy (error r))"

definition primary_emotions :: "message_data \<Rightarrow> emotion list" where
  "primary_emotions d =
     (case d of
        Malformed \<Rightarrow> []
      | Parsed r \<Rightarrow> (case response_predictions r of [] \<Rightarrow> [] | pred # rest \<Rightarrow> p_emotions pred))"

text \<open>
  The specification's reading of the emotion state: the primary face's emotions of the
  most recent message that has a prediction (the empty list when there is none).
\<close>

definition nonempty_message :: "message_data \<Rightarrow> bool" where
  "nonempty_message d =
     (case d of Malformed \<Rightarrow> False | Parsed r \<Rightarrow> response_predictions r \<noteq> [])"

definition latest_nonempty_emotions :: "message_data list \<Rightarrow> emotion list" where
  "latest_nonempty_emotions ds =
     (case rev (filter nonempty_message ds) of [] \<Rightarrow> [] | d # rest \<Rightarrow> primary_emotions d)"

text \<open>The specification's reading of the status of an empty message: the warning without its trailing period.\<close>

definition strip_trailing_period :: "string \<Rightarrow> string" where
  "strip_trailing_period w = (if w \<noteq> [] \<and> last w = CHR ''.'' then butlast w else w)"

text \<open>
  The specification's reading of the metric: the scores of the positive names summed,
  those of the negative names subtracted. It is what the code computes when the
  arithmetic is exact (\<open>exact_ops\<close>, the operations of the real numbers).
\<close>

definition named_sum :: "emotion list \<Rightarrow> real" where
  "named_sum es =
     sum_list (map score (filter (\<lambda>e. name e \<in> set pos_emotions) es))
       - sum_list (map score (filter (\<lambda>e. name e \<in> set neg_emotions) es))"

definition exact_ops :: "real double_ops" where
  "exact_ops =
     \<lparr>dbl = (\<lambda>x. x), fadd = (\<lambda>x y. x + y), fsub = (\<lambda>x y. x - y),
      fmul = (\<lambda>x y. x * y), fdiv = (\<lambda>x y. x / y), fgt = (\<lambda>x y. y < x)\<rparr>"

text \<open>A configuration for the examples.\<close>

definition props0 :: props where
  "props0 = \<lparr>environment = ''prod'', key = ''k'', apiUrlWs = ''wss://api.hume.ai'',
             onCalibrate = False\<rparr>"

text \<open>Example payloads and an example state, for the concrete instances below.\<close>

definition response_one_face :: response where
  "response_one_face =
     \<lparr>face = Some \<lparr>predictions =
         Some [\<lparr>bbox = (0, 0, 1, 1), p_emotions = [\<lparr>name = ''Joy'', score = 9 / 10\<rparr>]\<rparr>],
         warning = None\<rparr>,
      error = None\<rparr>"

definition response_no_face :: response where
  "response_no_face =
     \<lparr>face = Some \<lparr>predictions = Some [], warning = Some ''No faces detected.''\<rparr>,
      error = None\<rparr>"

definition response_two_periods :: response where
  "response_two_periods =
     \<lparr>face = Some \<lparr>predictions = Some [], warning = Some ''No face. Try again.''\<rparr>,
      error = None\<rparr>"

definition response_error :: response where
  "response_error = \<lparr>face = None, error = Some ''invalid api key''\<rparr>"

text \<open>
  The state after the recorder was created, the first socket opened and then closed:
  the component has reconnected, and the second socket is still connecting.
\<close>

definition state_reconnecting :: state where
  "state_reconnecting =
     run props0 (mounted props0) [VideoReady 0, RecorderReady 0, SocketOpen 0, SocketClose 0]"

section \<open>Properties\<close>

lemmas basic_defs = emit_def console_warn_def console_error_def readyState_def socket_close_def
lemmas capture_defs = capturePhoto_def sendRequest_def basic_defs
lemmas stop_defs = stopEverything_def stop_mount_def stop_socket_def stop_recorder_def basic_defs

lemma capturePhoto_fields:
  "socketRef (capturePhoto s) = socketRef s"
  "recorderRef (capturePhoto s) = recorderRef s"
  "photoRef (capturePhoto s) = photoRef s"
  "mountRef (capturePhoto s) = mountRef s"
  "recorderCreated (capturePhoto s) = recorderCreated s"
  "numReconnects (capturePhoto s) = numReconnects s"
  "trackedFaces (capturePhoto s) = trackedFaces s"
  "emotions (capturePhoto s) = emotions s"
  "status (capturePhoto s) = status s"
  by (simp_all add: capture_defs Let_def split: option.splits)

lemma capturePhoto_connects: "connects (capturePhoto s) = connects s"
  by (simp add: connects_def capture_defs Let_def split: option.splits)

lemma capturePhoto_creates: "creates (capturePhoto s) = creates s"
  by (simp add: creates_def capture_defs Let_def split: option.splits)

lemma stopEverything_fields:
  "socketRef (stopEverything s) = None"
  "recorderRef (stopEverything s) = None"
  "photoRef (stopEverything s) = photoRef s"
  "mountRef (stopEverything s) = False"
  "recorderCreated (stopEverything s) = recorderCreated s"
  "numReconnects (stopEverything s) = numReconnects s"
  "trackedFaces (stopEverything s) = trackedFaces s"
  "emotions (stopEverything s) = emotions s"
  "status (stopEverything s) = status s"
  by (simp_all add: stop_defs Let_def split: option.splits)

lemma stopEverything_effects: "effects (stopEverything s) = effects s @ teardown_effects s"
  by (simp add: stop_defs teardown_effects_def Let_def split: option.splits)

lemma stopEverything_connects: "connects (stopEverything s) = connects s"
  by (simp add: connects_def stopEverything_effects teardown_effects_def split: option.splits)

lemma stopEverything_creates: "creates (stopEverything s) = creates s"
  by (simp add: creates_def stopEverything_effects teardown_effects_def split: option.splits)

lemma forEach_fields:
  "socketRef (snd (predictions_forEach p ps i (t, s))) = socketRef s"
  "recorderRef (snd (predictions_forEach p ps i (t, s))) = recorderRef s"
  "photoRef (snd (predictions_forEach p ps i (t, s))) = photoRef s"
  "mountRef (snd (predictions_forEach p ps i (t, s))) = mountRef s"
  "recorderCreated (snd (predictions_forEach p ps i (t, s))) = recorderCreated s"
  "numReconnects (snd (predictions_forEach p ps i (t, s))) = numReconnects s"
  "status (snd (predictions_forEach p ps i (t, s))) = status s"
  "connects (snd (predictions_forEach p ps i (t, s))) = connects s"
  "creates (snd (predictions_forEach p ps i (t, s))) = creates s"
  by (induction ps arbitrary: i t s; simp add: emit_def Let_def connects_def creates_def)+

lemma forEach_emotions:
  "emotions (snd (predictions_forEach p ps i (t, s))) =
     (if i = 0 \<and> ps \<noteq> [] then p_emotions (hd ps) else emotions s)"
  by (induction ps arbitrary: i t s) (simp_all add: emit_def Let_def)

lemma count_upd [simp]:
  "connects (s\<lparr>photoRef := x\<rparr>) = connects s"
  "creates (s\<lparr>photoRef := x\<rparr>) = creates s"
  "connects (s\<lparr>socketRef := a\<rparr>) = connects s"
  "connects (s\<lparr>recorderRef := b\<rparr>) = connects s"
  "connects (s\<lparr>mountRef := c\<rparr>) = connects s"
  "connects (s\<lparr>recorderCreated := d\<rparr>) = connects s"
  "connects (s\<lparr>numReconnects := e\<rparr>) = connects s"
  "connects (s\<lparr>trackedFaces := f\<rparr>) = connects s"
  "connects (s\<lparr>emotions := g\<rparr>) = connects s"
  "connects (s\<lparr>status := h\<rparr>) = connects s"
  "connects (s\<lparr>sockets := i\<rparr>) = connects s"
  "connects (s\<lparr>console := j\<rparr>) = connects s"
  "creates (s\<lparr>socketRef := a\<rparr>) = creates s"
  "creates (s\<lparr>recorderRef := b\<rparr>) = creates s"
  "creates (s\<lparr>mountRef := c\<rparr>) = creates s"
  "creates (s\<lparr>recorderCreated := d\<rparr>) = creates s"
  "creates (s\<lparr>numReconnects := e\<rparr>) = creates s"
  "creates (s\<lparr>trackedFaces := f\<rparr>) = creates s"
  "creates (s\<lparr>emotions := g\<rparr>) = creates s"
  "creates (s\<lparr>status := h\<rparr>) = creates s"
  "creates (s\<lparr>sockets := i\<rparr>) = creates s"
  "creates (s\<lparr>console := j\<rparr>) = creates s"
  by (simp_all add: connects_def creates_def)

lemma render_fields [simp]:
  "socketRef (render p s) = socketRef s"
  "recorderRef (render p s) = recorderRef s"
  "photoRef (render p s) = photoRef s"
  "mountRef (render p s) = mountRef s"
  "recorderCreated (render p s) = recorderCreated s"
  "numReconnects (render p s) = numReconnects s"
  "trackedFaces (render p s) = trackedFaces s"
  "status (render p s) = status s"
  "sockets (render p s) = sockets s"
  "effects (render p s) = effects s"
  "console (render p s) = console s"
  "connects (render p s) = connects s"
  "creates (render p s) = creates s"
  "teardown_effects (render p s) = teardown_effects s"
  "readyState (render p s) k = readyState s k"
  by (simp_all add: render_def teardown_effects_def readyState_def)

lemma render_emotions: "mset (emotions (render p s)) = mset (emotions s)"
  by (simp add: render_def sort_emotions_def)

lemma TopEmotions_sorts_prop: "snd (TopEmotions ops es n) = sort_emotions es"
  by (simp add: TopEmotions_def Let_def)

lemma socketOnMessage_emotions:
  "emotions (socketOnMessage p d s) = (if accepted d then primary_emotions d else emotions s)"
  by (cases d)
     (auto simp: socketOnMessage_def accepted_def primary_emotions_def Let_def split_beta
        capturePhoto_fields stopEverything_fields forEach_emotions console_error_def
        split: list.splits)

lemma socketOnMessage_fields:
  "\<not> mountRef s \<Longrightarrow> \<not> mountRef (socketOnMessage p d s)"
  "connects (socketOnMessage p d s) = connects s"
  "creates (socketOnMessage p d s) = creates s"
  "numReconnects (socketOnMessage p d s) = numReconnects s"
  "recorderCreated (socketOnMessage p d s) = recorderCreated s"
  by (cases d; simp add: socketOnMessage_def Let_def split_beta capturePhoto_fields
        capturePhoto_connects capturePhoto_creates stopEverything_connects stopEverything_creates
        stopEverything_fields forEach_fields console_error_def split: if_splits)+

lemma socketOnOpen_fields:
  "mountRef (socketOnOpen s) = mountRef s"
  "connects (socketOnOpen s) = connects s"
  "creates (socketOnOpen s) = creates s"
  "numReconnects (socketOnOpen s) = numReconnects s"
  "recorderCreated (socketOnOpen s) = recorderCreated s"
  by (simp_all add: socketOnOpen_def Let_def capturePhoto_fields capturePhoto_connects
        capturePhoto_creates console_warn_def split: option.splits)

lemma connect_fields:
  "mountRef (connect p s) = mountRef s"
  "creates (connect p s) = creates s"
  "numReconnects (connect p s) = numReconnects s"
  "recorderCreated (connect p s) = recorderCreated s"
  by (simp_all add: connect_def Let_def emit_def creates_def)

lemma socketOnClose_fields:
  "mountRef (socketOnClose p s) = mountRef s"
  "\<not> mountRef s \<Longrightarrow> socketOnClose p s = s"
  "creates (socketOnClose p s) = creates s"
  "numReconnects (socketOnClose p s) = numReconnects s"
  "recorderCreated (socketOnClose p s) = recorderCreated s"
  by (simp_all add: socketOnClose_def connect_fields)

lemma socketOnError_fields:
  "\<not> mountRef s \<Longrightarrow> \<not> mountRef (socketOnError p s)"
  "connects (socketOnError p s) = connects s"
  "creates (socketOnError p s) = creates s"
  "numReconnects (socketOnError p s) =
     (if numReconnects s < maxReconnects then Suc (numReconnects s) else numReconnects s)"
  "recorderCreated (socketOnError p s) = recorderCreated s"
  by (simp_all add: socketOnError_def Let_def stopEverything_fields stopEverything_connects
        stopEverything_creates console_warn_def console_error_def split: if_splits)

lemma onVideoReady_fields:
  "mountRef (onVideoReady v s) = mountRef s"
  "connects (onVideoReady v s) = connects s"
  "creates (onVideoReady v s) =
     (if photoRef s \<and> recorderRef s = None \<and> \<not> recorderCreated s
      then Suc (creates s) else creates s)"
  "numReconnects (onVideoReady v s) = numReconnects s"
  "recorderCreated s \<Longrightarrow> recorderCreated (onVideoReady v s)"
  "creates (onVideoReady v s) \<noteq> creates s \<Longrightarrow> recorderCreated (onVideoReady v s)"
  by (simp_all add: onVideoReady_def emit_def console_error_def connects_def creates_def
        split: if_splits)

lemma onVideoReady_resume_fields:
  "mountRef (onVideoReady_resume r s) = mountRef s"
  "connects (onVideoReady_resume r s) = connects s"
  "creates (onVideoReady_resume r s) = creates s"
  "numReconnects (onVideoReady_resume r s) = numReconnects s"
  "recorderCreated (onVideoReady_resume r s) = recorderCreated s"
  by (simp_all add: onVideoReady_resume_def Let_def capturePhoto_fields capturePhoto_connects
        capturePhoto_creates console_warn_def)

lemma step_unmounted:
  "\<not> mountRef s \<Longrightarrow> \<not> mountRef (step p s ev) \<and> connects (step p s ev) = connects s"
  by (cases ev)
     (auto simp: socketOnOpen_fields socketOnMessage_fields socketOnClose_fields
        socketOnError_fields onVideoReady_fields onVideoReady_resume_fields
        useEffect_cleanup_def stopEverything_fields stopEverything_connects)

lemma run_unmounted:
  "\<not> mountRef s \<Longrightarrow> \<not> mountRef (run p s evs) \<and> connects (run p s evs) = connects s"
  unfolding run_def
proof (induction evs arbitrary: s)
  case Nil
  then show ?case by simp
next
  case (Cons ev evs)
  from step_unmounted [OF Cons.prems, of p ev]
  have a: "\<not> mountRef (step p s ev)" and b: "connects (step p s ev) = connects s" by simp_all
  from Cons.IH [OF a] b show ?case by simp
qed

lemma step_numReconnects:
  "numReconnects (step p s ev) =
     (if is_error_event ev \<and> numReconnects s < maxReconnects
      then Suc (numReconnects s) else numReconnects s)"
  by (cases ev)
     (simp_all add: socketOnOpen_fields socketOnMessage_fields socketOnClose_fields
        socketOnError_fields onVideoReady_fields onVideoReady_resume_fields
        useEffect_cleanup_def stopEverything_fields)

lemma step_creates:
  "creates (step p s ev) \<le> creates s + (if recorderCreated s then 0 else 1)"
  "recorderCreated s \<Longrightarrow> recorderCreated (step p s ev)"
  "creates (step p s ev) \<noteq> creates s \<Longrightarrow> recorderCreated (step p s ev)"
  by (cases ev;
      simp add: socketOnOpen_fields socketOnMessage_fields socketOnClose_fields
        socketOnError_fields onVideoReady_fields onVideoReady_resume_fields
        useEffect_cleanup_def stopEverything_fields stopEverything_creates)+

lemmas model_defs = run_def mounted_def useEffect_mount_def useEffect_cleanup_def initial_state_def
  render_def sort_emotions_def
  connect_def socketOnOpen_def socketOnClose_def socketOnError_def socketOnMessage_def
  onVideoReady_def onVideoReady_resume_def capturePhoto_def sendRequest_def stopEverything_def
  stop_mount_def stop_socket_def stop_recorder_def socket_close_def readyState_def emit_def
  console_warn_def console_error_def maxReconnects_def truthy_def response_predictions_def
  response_warning_def replace_dot_def props0_def Let_def

lemma run_snoc: "run p s (evs @ [ev]) = step p (run p s evs) ev"
  by (simp add: run_def)

lemma run_Cons: "run p s (ev # evs) = run p (step p s ev) evs"
  by (simp add: run_def)

lemma run_Nil: "run p s [] = s"
  by (simp add: run_def)

text \<open>
  Claim C1, as stated, fails: after a message with one face and then a message with no
  prediction, the emotion state is empty, while the most recent message that has a
  prediction carries the emotion Joy.
\<close>

theorem C1_counterexample:
  "emotions (run props0 (mounted props0)
      (map (SocketMessage 0) [Parsed response_one_face, Parsed response_no_face]))
   \<noteq> latest_nonempty_emotions [Parsed response_one_face, Parsed response_no_face]"
  by (simp add: run_Cons run_Nil socketOnMessage_emotions accepted_def primary_emotions_def
        latest_nonempty_emotions_def nonempty_message_def response_one_face_def
        response_no_face_def truthy_def response_predictions_def render_def sort_emotions_def)

text \<open>
  Claim C1, amended. After any sequence of messages delivered to \<^verbatim>\<open>socketOnMessage\<close>,
  each followed by its render, the emotion state is decided by the most recent accepted
  message (one that parses and carries no error): it holds the emotions of that message's
  first prediction, each as often as the message has it, and it is the empty list when
  that message has no prediction. Messages with an error, and messages that do not
  parse, add and remove nothing; with no accepted message the state holds what it held.
  The order of the emotions in the state is left open.
\<close>

theorem C1_latest_accepted:
  "mset (emotions (run p s (map (SocketMessage k) ds))) =
     mset (case rev (filter accepted ds) of [] \<Rightarrow> emotions s | d # rest \<Rightarrow> primary_emotions d)
   \<and> (accepted d \<and> primary_emotions d = [] \<longrightarrow>
        emotions (run p s (map (SocketMessage k) (ds @ [d]))) = [])"
proof -
  have step_emotions: "mset (emotions (render p (socketOnMessage p m t))) =
      mset (if accepted m then primary_emotions m else emotions t)" for t m
    by (simp add: render_emotions socketOnMessage_emotions)
  have a: "mset (emotions (run p s (map (SocketMessage k) ms))) =
      mset (case rev (filter accepted ms) of [] \<Rightarrow> emotions s | m # rest \<Rightarrow> primary_emotions m)"
    for ms
  proof (induction ms rule: rev_induct)
    case Nil
    show ?case by (simp add: run_Nil)
  next
    case (snoc m ms)
    have "mset (emotions (run p s (map (SocketMessage k) (ms @ [m])))) =
        mset (if accepted m then primary_emotions m
              else emotions (run p s (map (SocketMessage k) ms)))"
      by (simp add: run_snoc step_emotions)
    with snoc.IH show ?case by simp
  qed
  have b: "accepted d \<and> primary_emotions d = [] \<longrightarrow>
        emotions (run p s (map (SocketMessage k) (ds @ [d]))) = []"
  proof
    assume h: "accepted d \<and> primary_emotions d = []"
    then have "rev (filter accepted (ds @ [d])) = d # rev (filter accepted ds)" by simp
    with a [of "ds @ [d]"] h
    have "mset (emotions (run p s (map (SocketMessage k) (ds @ [d])))) = {#}" by simp
    then show "emotions (run p s (map (SocketMessage k) (ds @ [d]))) = []" by simp
  qed
  show ?thesis using a [of ds] b by blast
qed

text \<open>
  Claim C1 on a message with one face followed by a message with no prediction.
\<close>

theorem C1_latest_accepted_witness:
  "accepted (Parsed response_no_face) \<and> primary_emotions (Parsed response_no_face) = []
   \<and> emotions (run props0 (mounted props0)
        (map (SocketMessage 0) ([Parsed response_one_face] @ [Parsed response_no_face]))) = []"
proof -
  have h: "accepted (Parsed response_no_face)" "primary_emotions (Parsed response_no_face) = []"
    by (simp_all add: accepted_def primary_emotions_def response_no_face_def truthy_def
          response_predictions_def)
  from C1_latest_accepted [of props0 "mounted props0" 0 "[Parsed response_one_face]"
      "Parsed response_no_face"] h
  show ?thesis by blast
qed

lemma remove1_trailing:
  assumes "CHR ''.'' \<notin> set (butlast w)"
  shows "replace_dot w = strip_trailing_period w"
proof (cases "w = []")
  case True
  then show ?thesis by (simp add: replace_dot_def strip_trailing_period_def)
next
  case False
  then have w: "w = butlast w @ [last w]" by simp
  have "remove1 (CHR ''.'') (butlast w @ [last w]) = butlast w @ remove1 (CHR ''.'') [last w]"
    using assms by (simp add: remove1_append)
  with w have "remove1 (CHR ''.'') w = butlast w @ remove1 (CHR ''.'') [last w]" by simp
  with False w show ?thesis
    by (auto simp: replace_dot_def strip_trailing_period_def)
qed

lemma socketOnMessage_status_empty:
  assumes "\<not> truthy (error r)" "response_predictions r = []"
  shows "status (socketOnMessage p (Parsed r) s) = replace_dot (response_warning r)"
  using assms by (simp add: socketOnMessage_def Let_def capturePhoto_fields)

text \<open>
  Claim C5, as stated, fails on a warning with two periods: the first one is removed, not
  the trailing one.
\<close>

theorem C5_counterexample:
  "\<not> truthy (error response_two_periods) \<and> response_predictions response_two_periods = []
   \<and> response_warning response_two_periods = ''No face. Try again.''
   \<and> status (socketOnMessage props0 (Parsed response_two_periods) (mounted props0))
       \<noteq> strip_trailing_period ''No face. Try again.''"
  by (simp add: socketOnMessage_status_empty response_two_periods_def truthy_def
        response_predictions_def response_warning_def replace_dot_def strip_trailing_period_def)

text \<open>
  Claim C5, amended. A message with no error and no prediction empties the emotion state
  and sets the status to the warning with its first period removed. That is the warning
  without its trailing period whenever no period occurs before the last character, and
  the empty string when the message has no warning.
\<close>

theorem C5_empty_predictions:
  assumes "\<not> truthy (error r)" and "response_predictions r = []"
  shows "emotions (socketOnMessage p (Parsed r) s) = []
     \<and> status (socketOnMessage p (Parsed r) s) = remove1 (CHR ''.'') (response_warning r)
     \<and> (CHR ''.'' \<notin> set (butlast (response_warning r)) \<longrightarrow>
          status (socketOnMessage p (Parsed r) s) = strip_trailing_period (response_warning r))
     \<and> (face r = None \<or> (\<exists>f. face r = Some f \<and> warning f = None) \<longrightarrow>
          status (socketOnMessage p (Parsed r) s) = [])"
proof -
  have e: "emotions (socketOnMessage p (Parsed r) s) = []"
    using assms by (simp add: socketOnMessage_emotions accepted_def primary_emotions_def)
  have st: "status (socketOnMessage p (Parsed r) s) = replace_dot (response_warning r)"
    using assms by (rule socketOnMessage_status_empty)
  have nw: "face r = None \<or> (\<exists>f. face r = Some f \<and> warning f = None) \<Longrightarrow> response_warning r = []"
    by (auto simp: response_warning_def)
  show ?thesis
    using e st nw remove1_trailing [of "response_warning r"]
    by (auto simp: replace_dot_def)
qed

text \<open>
  Claim C5 on the warning \<^verbatim>\<open>No faces detected.\<close> and on a payload without a face.
\<close>

theorem C5_empty_predictions_witness:
  "\<not> truthy (error response_no_face) \<and> response_predictions response_no_face = []
   \<and> response_warning response_no_face = ''No faces detected.''
   \<and> CHR ''.'' \<notin> set (butlast (response_warning response_no_face))
   \<and> emotions (socketOnMessage props0 (Parsed response_no_face) (mounted props0)) = []
   \<and> status (socketOnMessage props0 (Parsed response_no_face) (mounted props0))
       = ''No faces detected''
   \<and> face \<lparr>face = None, error = None\<rparr> = None
   \<and> status (socketOnMessage props0 (Parsed \<lparr>face = None, error = None\<rparr>) (mounted props0)) = []"
proof -
  have a: "\<not> truthy (error response_no_face)" "response_predictions response_no_face = []"
    "response_warning response_no_face = ''No faces detected.''"
    by (simp_all add: response_no_face_def truthy_def response_predictions_def
          response_warning_def)
  have b: "\<not> truthy (error \<lparr>face = None, error = None\<rparr>)"
    "response_predictions \<lparr>face = None, error = None\<rparr> = []"
    by (simp_all add: truthy_def response_predictions_def)
  show ?thesis
    using a C5_empty_predictions [OF a(1) a(2), of props0 "mounted props0"]
      C5_empty_predictions [OF b(1) b(2), of props0 "mounted props0"]
    by (simp add: strip_trailing_period_def response_warning_def)
qed

lemma run_append: "run p s (evs @ evs') = run p (run p s evs) evs'"
  by (simp add: run_def)

lemma socketOnError_below:
  assumes "numReconnects s < maxReconnects"
  shows "numReconnects (socketOnError p s) = Suc (numReconnects s)"
    and "mountRef (socketOnError p s) = mountRef s"
    and "socketRef (socketOnError p s) = socketRef s"
    and "recorderRef (socketOnError p s) = recorderRef s"
    and "effects (socketOnError p s) = effects s"
    and "sockets (socketOnError p s) = sockets s"
    and "status (socketOnError p s) = status s"
  using assms by (simp_all add: socketOnError_def Let_def console_warn_def console_error_def)

lemma socketOnError_at:
  assumes "maxReconnects \<le> numReconnects s"
  shows "numReconnects (socketOnError p s) = numReconnects s"
    and "\<not> mountRef (socketOnError p s)"
    and "socketRef (socketOnError p s) = None"
    and "recorderRef (socketOnError p s) = None"
    and "effects (socketOnError p s) = effects s @ teardown_effects s"
    and "status (socketOnError p s) = fatal_status p"
  using assms
  by (simp_all add: socketOnError_def Let_def stopEverything_fields stopEverything_effects
        console_error_def teardown_effects_def)

lemma errors_below:
  "numReconnects s + length ks \<le> maxReconnects \<Longrightarrow>
   numReconnects (run p s (map SocketError ks)) = numReconnects s + length ks
   \<and> mountRef (run p s (map SocketError ks)) = mountRef s
   \<and> socketRef (run p s (map SocketError ks)) = socketRef s
   \<and> recorderRef (run p s (map SocketError ks)) = recorderRef s
   \<and> effects (run p s (map SocketError ks)) = effects s
   \<and> sockets (run p s (map SocketError ks)) = sockets s
   \<and> status (run p s (map SocketError ks)) = status s"
proof (induction ks arbitrary: s)
  case Nil
  show ?case by (simp add: run_Nil)
next
  case (Cons k ks)
  then have lt: "numReconnects s < maxReconnects" by simp
  have "numReconnects (render p (socketOnError p s)) + length ks \<le> maxReconnects"
    using Cons.prems by (simp add: socketOnError_below(1) [OF lt])
  from Cons.IH [OF this] show ?case
    by (simp add: run_Cons socketOnError_below [OF lt])
qed

lemma errors_above:
  "maxReconnects \<le> numReconnects s \<Longrightarrow>
   numReconnects (run p s (map SocketError (ks @ [k]))) = numReconnects s
   \<and> \<not> mountRef (run p s (map SocketError (ks @ [k])))
   \<and> socketRef (run p s (map SocketError (ks @ [k]))) = None
   \<and> recorderRef (run p s (map SocketError (ks @ [k]))) = None
   \<and> effects (run p s (map SocketError (ks @ [k]))) = effects s @ teardown_effects s
   \<and> status (run p s (map SocketError (ks @ [k]))) = fatal_status p"
proof (induction ks arbitrary: k rule: rev_induct)
  case Nil
  then show ?case by (simp add: run_Cons run_Nil socketOnError_at)
next
  case (snoc j ks)
  let ?u = "run p s (map SocketError (ks @ [j]))"
  from snoc.IH [OF snoc.prems, of j]
  have u: "numReconnects ?u = numReconnects s" "socketRef ?u = None" "recorderRef ?u = None"
    "effects ?u = effects s @ teardown_effects s"
    by simp_all
  have ge: "maxReconnects \<le> numReconnects ?u" using u(1) snoc.prems by simp
  have step: "run p s (map SocketError ((ks @ [j]) @ [k])) = render p (socketOnError p ?u)"
    by (simp add: run_snoc del: append_assoc)
  show ?case
    unfolding step using socketOnError_at [OF ge, of p] u
    by (simp add: teardown_effects_def)
qed

lemma fatal_status_mentions: "\<exists>a b. fatal_status p = a @ environment p @ b"
  unfolding fatal_status_def by (metis append.assoc)

text \<open>
  Claim C2. Starting with a counter of zero, after any sequence of socket error events the
  counter is the number of errors capped at the ceiling 3. Up to three errors, nothing is
  torn down: the mounted flag, the socket, the recorder, the calls made and the status are
  as before. From the fourth error on, the status is the fatal message, which contains
  the configured environment, everything is torn down, and whatever event follows, no
  socket is created any more.
\<close>

theorem C2_retry_ceiling:
  assumes "numReconnects s = 0" and "R = run p s (map SocketError ks)"
  shows "maxReconnects = 3
     \<and> numReconnects R = min (length ks) maxReconnects
     \<and> (length ks \<le> maxReconnects \<longrightarrow>
          mountRef R = mountRef s \<and> socketRef R = socketRef s \<and> recorderRef R = recorderRef s
          \<and> effects R = effects s \<and> sockets R = sockets s \<and> status R = status s)
     \<and> (maxReconnects < length ks \<longrightarrow>
          status R = fatal_status p \<and> \<not> mountRef R \<and> socketRef R = None
          \<and> recorderRef R = None \<and> effects R = effects s @ teardown_effects s
          \<and> (\<forall>evs. connects (run p R evs) = connects s))
     \<and> (\<exists>a b. fatal_status p = a @ environment p @ b)"
proof -
  have below: "length ks \<le> maxReconnects \<Longrightarrow>
      numReconnects R = length ks \<and> mountRef R = mountRef s \<and> socketRef R = socketRef s
      \<and> recorderRef R = recorderRef s \<and> effects R = effects s \<and> sockets R = sockets s
      \<and> status R = status s"
    using errors_below [of s ks p] assms by simp
  have above: "numReconnects R = maxReconnects \<and> status R = fatal_status p \<and> \<not> mountRef R
      \<and> socketRef R = None \<and> recorderRef R = None \<and> effects R = effects s @ teardown_effects s
      \<and> (\<forall>evs. connects (run p R evs) = connects s)"
    if gt: "maxReconnects < length ks"
  proof -
    let ?a = "take maxReconnects ks" and ?b = "drop maxReconnects ks"
    let ?t = "run p s (map SocketError ?a)"
    have la: "length ?a = maxReconnects" using gt by simp
    have t: "numReconnects ?t = maxReconnects" "effects ?t = effects s"
      "socketRef ?t = socketRef s" "recorderRef ?t = recorderRef s"
      using errors_below [of s ?a p] assms(1) la by simp_all
    have "?b \<noteq> []" using gt by simp
    then obtain bs k where b: "?b = bs @ [k]" by (metis rev_exhaust)
    have R: "R = run p ?t (map SocketError (bs @ [k]))"
      unfolding assms(2) b [symmetric] run_append [symmetric] map_append [symmetric]
      by simp
    have ge: "maxReconnects \<le> numReconnects ?t" using t(1) by simp
    have td: "teardown_effects ?t = teardown_effects s"
      by (simp add: teardown_effects_def t)
    from errors_above [OF ge, of p bs k]
    have r: "numReconnects R = maxReconnects" "\<not> mountRef R" "socketRef R = None"
      "recorderRef R = None" "effects R = effects s @ teardown_effects s"
      "status R = fatal_status p"
      unfolding R [symmetric] by (simp_all add: t td)
    have "connects R = connects s"
      by (simp add: connects_def r(5) teardown_effects_def split: option.splits)
    with run_unmounted [OF r(2), of p] have "\<forall>evs. connects (run p R evs) = connects s"
      by simp
    with r show ?thesis by simp
  qed
  show ?thesis
    using below above fatal_status_mentions [of p]
    by (cases "length ks \<le> maxReconnects") (auto simp: maxReconnects_def)
qed

text \<open>
  Claim C2 on a freshly mounted component, at three and at four errors.
\<close>

theorem C2_retry_ceiling_witness:
  "numReconnects (mounted props0) = 0
   \<and> numReconnects (run props0 (mounted props0) (map SocketError [0, 0, 0])) = 3
   \<and> mountRef (run props0 (mounted props0) (map SocketError [0, 0, 0]))
   \<and> socketRef (run props0 (mounted props0) (map SocketError [0, 0, 0])) = Some 0
   \<and> numReconnects (run props0 (mounted props0) (map SocketError [0, 0, 0, 0])) = 3
   \<and> status (run props0 (mounted props0) (map SocketError [0, 0, 0, 0])) = fatal_status props0
   \<and> \<not> mountRef (run props0 (mounted props0) (map SocketError [0, 0, 0, 0]))
   \<and> socketRef (run props0 (mounted props0) (map SocketError [0, 0, 0, 0])) = None
   \<and> connects (run props0 (run props0 (mounted props0) (map SocketError [0, 0, 0, 0]))
        [SocketClose 0]) = 1"
proof -
  have z: "numReconnects (mounted props0) = 0" "mountRef (mounted props0)"
    "socketRef (mounted props0) = Some 0" "connects (mounted props0) = 1"
    by (simp_all add: mounted_def useEffect_mount_def initial_state_def connect_def emit_def
          connects_def Let_def)
  show ?thesis
    using z C2_retry_ceiling [OF z(1) refl, of props0 "[0, 0, 0]"]
      C2_retry_ceiling [OF z(1) refl, of props0 "[0, 0, 0, 0]"]
    by simp
qed

lemma stopEverything_readyState:
  "socketRef s = Some k \<Longrightarrow>
     readyState (stopEverything s) k \<noteq> OPEN \<and> readyState (stopEverything s) k \<noteq> CONNECTING"
  by (simp add: stop_defs Let_def split: option.splits)

lemma stopEverything_unmounted_run:
  "connects (run p (stopEverything s) evs) = connects s"
  using run_unmounted [of "stopEverything s" p evs]
  by (simp add: stopEverything_fields stopEverything_connects)

text \<open>
  Claim C3. A message whose error is a non-empty string sets the status to that string,
  clears the mounted flag, closes the socket and stops the recorder that are there, and
  does nothing else with the message: the emotions and the tracked faces keep their
  values, no photo is taken and nothing is sent. The close event that follows is ignored,
  and whatever event follows, no socket is created any more.
\<close>

theorem C3_server_error_is_fatal:
  assumes "error r = Some e" and "e \<noteq> []" and "s' = socketOnMessage p (Parsed r) s"
  shows "status s' = e \<and> \<not> mountRef s' \<and> socketRef s' = None \<and> recorderRef s' = None
     \<and> effects s' = effects s @ teardown_effects s
     \<and> (\<forall>k. socketRef s = Some k \<longrightarrow> readyState s' k \<noteq> OPEN \<and> readyState s' k \<noteq> CONNECTING)
     \<and> emotions s' = emotions s \<and> trackedFaces s' = trackedFaces s
     \<and> socketOnClose p s' = s'
     \<and> (\<forall>evs. connects (run p s' evs) = connects s)"
proof -
  let ?t = "console_error [Str e] (s\<lparr>status := e\<rparr>)"
  have s': "s' = stopEverything ?t"
    using assms by (simp add: socketOnMessage_def truthy_def Let_def console_error_def)
  have t: "socketRef ?t = socketRef s" "recorderRef ?t = recorderRef s" "effects ?t = effects s"
    "status ?t = e" "emotions ?t = emotions s" "trackedFaces ?t = trackedFaces s"
    "connects ?t = connects s"
    by (simp_all add: console_error_def connects_def)
  have td: "teardown_effects ?t = teardown_effects s"
    by (simp add: teardown_effects_def t)
  have rs: "\<forall>k. socketRef s = Some k \<longrightarrow> readyState s' k \<noteq> OPEN \<and> readyState s' k \<noteq> CONNECTING"
    unfolding s' using stopEverything_readyState [of ?t] t(1) by simp
  have cl: "socketOnClose p s' = s'"
    unfolding s' by (simp add: socketOnClose_fields stopEverything_fields)
  have nc: "\<forall>evs. connects (run p s' evs) = connects s"
    unfolding s' by (simp add: stopEverything_unmounted_run t)
  show ?thesis
    using rs cl nc unfolding s'
    by (simp add: stopEverything_fields stopEverything_effects t td)
qed

text \<open>
  Claim C3 on the payload \<^verbatim>\<open>{error: "invalid api key"}\<close>, received while a socket is connecting.
\<close>

theorem C3_server_error_is_fatal_witness:
  "error response_error = Some ''invalid api key''
   \<and> status (socketOnMessage props0 (Parsed response_error) state_reconnecting)
       = ''invalid api key''
   \<and> socketRef state_reconnecting = Some 1 \<and> recorderRef state_reconnecting = Some 0
   \<and> socketRef (socketOnMessage props0 (Parsed response_error) state_reconnecting) = None
   \<and> effects (socketOnMessage props0 (Parsed response_error) state_reconnecting)
       = effects state_reconnecting @ [Socket_close 1, Recorder_stopRecording 0]
   \<and> readyState (socketOnMessage props0 (Parsed response_error) state_reconnecting) 1
       \<noteq> CONNECTING
   \<and> connects (run props0 (socketOnMessage props0 (Parsed response_error) state_reconnecting)
        [SocketClose 1]) = connects state_reconnecting"
proof -
  have e: "error response_error = Some ''invalid api key''" "''invalid api key'' \<noteq> []"
    by (simp_all add: response_error_def)
  have s: "socketRef state_reconnecting = Some 1" "recorderRef state_reconnecting = Some 0"
    by (simp_all add: state_reconnecting_def model_defs)
  show ?thesis
    using e(1) s C3_server_error_is_fatal [OF e refl, of props0 state_reconnecting]
    by (simp add: teardown_effects_def)
qed

text \<open>
  Claim C4 does not hold of the code when the view is unmounted while the recorder is
  being created, after \<^verbatim>\<open>onVideoReady\<close> has called \<^verbatim>\<open>VideoRecorder.create\<close> and before
  the recorder has arrived. The teardown closes the socket and clears the mounted flag,
  but finds no recorder to stop; the recorder that arrives afterwards is stored in
  \<open>recorderRef\<close>, and nothing stops it.
\<close>

theorem C4_pending_recorder_not_released:
  "recorderCreated (run props0 (mounted props0) [VideoReady 0])
   \<and> recorderRef (run props0 (mounted props0) [VideoReady 0]) = None
   \<and> effects (run props0 (mounted props0) [VideoReady 0, Unmount])
       = effects (mounted props0) @ [VideoRecorder_create 0, Socket_close 0]
   \<and> \<not> mountRef (run props0 (mounted props0) [VideoReady 0, Unmount])
   \<and> recorderRef (run props0 (mounted props0) [VideoReady 0, Unmount, RecorderReady 0]) = Some 0
   \<and> effects (run props0 (mounted props0) [VideoReady 0, Unmount, RecorderReady 0])
       = effects (mounted props0) @ [VideoRecorder_create 0, Socket_close 0]
   \<and> Recorder_stopRecording 0
       \<notin> set (effects (run props0 (mounted props0) [VideoReady 0, Unmount, RecorderReady 0]))"
  by (simp add: model_defs)




lemma step_recorderCreated:
  "recorderCreated s \<Longrightarrow> recorderCreated (step p s ev) \<and> creates (step p s ev) = creates s"
  by (cases ev)
     (simp_all add: socketOnOpen_fields socketOnMessage_fields socketOnClose_fields
        socketOnError_fields onVideoReady_fields onVideoReady_resume_fields
        useEffect_cleanup_def stopEverything_fields stopEverything_creates)

lemma onVideoReady_first_create:
  "creates (onVideoReady v s) = creates s
     \<or> (creates (onVideoReady v s) = Suc (creates s) \<and> recorderCreated (onVideoReady v s))"
  by (simp add: onVideoReady_def emit_def console_error_def creates_def)

lemma step_first_create:
  "creates (step p s ev) = creates s
     \<or> (creates (step p s ev) = Suc (creates s) \<and> recorderCreated (step p s ev))"
  by (cases ev)
     (simp_all add: socketOnOpen_fields socketOnMessage_fields socketOnClose_fields
        socketOnError_fields onVideoReady_resume_fields onVideoReady_first_create
        useEffect_cleanup_def stopEverything_fields stopEverything_creates)

lemma run_recorderCreated:
  "recorderCreated s \<Longrightarrow> recorderCreated (run p s evs) \<and> creates (run p s evs) = creates s"
proof (induction evs arbitrary: s)
  case Nil
  then show ?case by (simp add: run_Nil)
next
  case (Cons ev evs)
  from step_recorderCreated [OF Cons.prems, of p ev] Cons.IH [of "step p s ev"]
  show ?case by (simp add: run_Cons)
qed

lemma run_creates: "creates (run p s evs) \<le> Suc (creates s)"
proof (induction evs arbitrary: s)
  case Nil
  show ?case by (simp add: run_Nil)
next
  case (Cons ev evs)
  show ?case
  proof (cases "recorderCreated s")
    case True
    from run_recorderCreated [OF True, of p "ev # evs"] show ?thesis by simp
  next
    case False
    from step_first_create [of p s ev]
    consider "creates (step p s ev) = creates s"
      | "creates (step p s ev) = Suc (creates s)" "recorderCreated (step p s ev)"
      by blast
    then show ?thesis
    proof cases
      case 1
      with Cons.IH [of "step p s ev"] show ?thesis by (simp add: run_Cons)
    next
      case 2
      from run_recorderCreated [OF 2(2), of p evs] 2(1) show ?thesis by (simp add: run_Cons)
    qed
  qed
qed

lemma mounted_fields:
  "creates (mounted p) = 0" "numReconnects (mounted p) = 0" "\<not> recorderCreated (mounted p)"
  by (simp_all add: mounted_def useEffect_mount_def initial_state_def connect_def emit_def
        creates_def Let_def)

text \<open>
  Claim C9. From a mounted component, no sequence of events creates more than one
  recorder. The call of \<^verbatim>\<open>onVideoReady\<close> that passes the guard sets \<open>recorderCreated\<close>
  in the same step in which it asks for the recorder, before the recorder arrives. Once
  the flag is set, \<^verbatim>\<open>onVideoReady\<close> makes no call and leaves the recorder ref alone, and
  no sequence of events creates a recorder.
\<close>

theorem C9_one_recorder_per_mount:
  "creates (run p (mounted p) evs) \<le> 1
   \<and> (photoRef s \<and> recorderRef s = None \<and> \<not> recorderCreated s \<longrightarrow>
        recorderCreated (onVideoReady v s)
        \<and> effects (onVideoReady v s) = effects s @ [VideoRecorder_create v])
   \<and> (recorderCreated s \<longrightarrow>
        effects (onVideoReady v s) = effects s \<and> recorderRef (onVideoReady v s) = recorderRef s
        \<and> recorderCreated (onVideoReady v s)
        \<and> creates (run p s evs) = creates s)"
proof -
  have a: "creates (run p (mounted p) evs) \<le> 1"
    using run_creates [of p "mounted p" evs] by (simp add: mounted_fields)
  have b: "photoRef s \<and> recorderRef s = None \<and> \<not> recorderCreated s \<longrightarrow>
        recorderCreated (onVideoReady v s)
        \<and> effects (onVideoReady v s) = effects s @ [VideoRecorder_create v]"
    by (simp add: onVideoReady_def emit_def)
  have c: "recorderCreated s \<longrightarrow>
        effects (onVideoReady v s) = effects s \<and> recorderRef (onVideoReady v s) = recorderRef s
        \<and> recorderCreated (onVideoReady v s)"
    by (simp add: onVideoReady_def console_error_def)
  have d: "recorderCreated s \<longrightarrow> creates (run p s evs) = creates s"
    using run_recorderCreated [of s p evs] by simp
  show ?thesis using a b c d by blast
qed

text \<open>
  Claim C9 with a second and a third \<^verbatim>\<open>onVideoReady\<close>, one of them before the recorder has arrived.
\<close>

theorem C9_one_recorder_per_mount_witness:
  "photoRef (mounted props0) \<and> recorderRef (mounted props0) = None
   \<and> \<not> recorderCreated (mounted props0)
   \<and> effects (onVideoReady 0 (mounted props0))
       = effects (mounted props0) @ [VideoRecorder_create 0]
   \<and> recorderCreated (onVideoReady 0 (mounted props0))
   \<and> effects (onVideoReady 1 (onVideoReady 0 (mounted props0)))
       = effects (onVideoReady 0 (mounted props0))
   \<and> creates (run props0 (onVideoReady 0 (mounted props0)) [VideoReady 1, RecorderReady 0,
        VideoReady 2]) = 1
   \<and> creates (run props0 (mounted props0) [VideoReady 0, VideoReady 1, RecorderReady 0,
        VideoReady 2]) \<le> 1"
proof -
  have m: "photoRef (mounted props0)" "recorderRef (mounted props0) = None"
    "\<not> recorderCreated (mounted props0)" "creates (mounted props0) = 0"
    by (simp_all add: mounted_def useEffect_mount_def initial_state_def connect_def emit_def
          creates_def Let_def)
  from C9_one_recorder_per_mount [of props0 _ "mounted props0" 0] m
  have f: "recorderCreated (onVideoReady 0 (mounted props0))"
    "effects (onVideoReady 0 (mounted props0))
       = effects (mounted props0) @ [VideoRecorder_create 0]"
    by blast+
  have c1: "creates (onVideoReady 0 (mounted props0)) = 1"
    using m(4) by (simp add: creates_def f(2))
  from C9_one_recorder_per_mount [of props0 "[VideoReady 1, RecorderReady 0, VideoReady 2]"
      "onVideoReady 0 (mounted props0)" 1] f(1) c1
  have g: "effects (onVideoReady 1 (onVideoReady 0 (mounted props0)))
       = effects (onVideoReady 0 (mounted props0))"
    "creates (run props0 (onVideoReady 0 (mounted props0)) [VideoReady 1, RecorderReady 0,
        VideoReady 2]) = 1"
    by simp_all
  from C9_one_recorder_per_mount [of props0
      "[VideoReady 0, VideoReady 1, RecorderReady 0, VideoReady 2]"]
  have h: "creates (run props0 (mounted props0) [VideoReady 0, VideoReady 1, RecorderReady 0,
        VideoReady 2]) \<le> 1"
    by blast
  show ?thesis using m f g h by simp
qed

lemma run_numReconnects_mono: "numReconnects s \<le> numReconnects (run p s evs)"
proof (induction evs arbitrary: s)
  case Nil
  show ?case by (simp add: run_Nil)
next
  case (Cons ev evs)
  have "numReconnects s \<le> numReconnects (step p s ev)" by (simp add: step_numReconnects)
  also have "\<dots> \<le> numReconnects (run p (step p s ev) evs)" by (rule Cons.IH)
  finally show ?case by (simp add: run_Cons)
qed

lemma run_numReconnects_count:
  "numReconnects s \<le> maxReconnects \<Longrightarrow>
     numReconnects (run p s evs)
       = min maxReconnects (numReconnects s + length (filter is_error_event evs))"
proof (induction evs arbitrary: s)
  case Nil
  then show ?case by (simp add: run_Nil)
next
  case (Cons ev evs)
  have le: "numReconnects (step p s ev) \<le> maxReconnects"
    using Cons.prems by (simp add: step_numReconnects)
  from Cons.IH [OF le] Cons.prems show ?case
    by (simp add: run_Cons step_numReconnects)
qed

text \<open>
  Claim C10. No event decreases the reconnect counter: only an error event changes it, by
  one, while it is below the ceiling. So from a mounted component the counter is the
  number of error events so far, capped at the ceiling, whatever happened in between. A
  counter that has left zero never returns to it; the initial state of a fresh mount has
  a counter of zero.
\<close>

theorem C10_counter_never_reset:
  "numReconnects s \<le> numReconnects (run p s evs)
   \<and> numReconnects (step p s ev) =
       (if is_error_event ev \<and> numReconnects s < maxReconnects
        then numReconnects s + 1 else numReconnects s)
   \<and> numReconnects (run p (mounted p) evs)
       = min maxReconnects (length (filter is_error_event evs))
   \<and> numReconnects initial_state = 0 \<and> numReconnects (mounted p) = 0
   \<and> (0 < numReconnects s \<longrightarrow> 0 < numReconnects (run p s evs))"
proof -
  have a: "numReconnects s \<le> numReconnects (run p s evs)" by (rule run_numReconnects_mono)
  have b: "numReconnects (run p (mounted p) evs)
       = min maxReconnects (length (filter is_error_event evs))"
    using run_numReconnects_count [of "mounted p" p evs] by (simp add: mounted_fields)
  show ?thesis
    using a b by (simp add: step_numReconnects mounted_fields initial_state_def)
qed

text \<open>
  Claim C10 with errors separated by successful connections.
\<close>

theorem C10_counter_never_reset_witness:
  "numReconnects (run props0 (mounted props0)
      [SocketError 0, SocketClose 0, SocketOpen 1, SocketError 1, SocketClose 1, SocketOpen 2,
       SocketError 2]) = 3
   \<and> 0 < numReconnects (step props0 (mounted props0) (SocketError 0))
   \<and> 0 < numReconnects (run props0 (step props0 (mounted props0) (SocketError 0))
        [SocketClose 0, SocketOpen 1, SocketMessage 1 (Parsed response_no_face)])"
proof -
  have e: "0 < numReconnects (step props0 (mounted props0) (SocketError 0))"
    using C10_counter_never_reset [of "mounted props0" props0 "[]" "SocketError 0"]
    by (simp add: maxReconnects_def)
  from e C10_counter_never_reset [of "step props0 (mounted props0) (SocketError 0)" props0
      "[SocketClose 0, SocketOpen 1, SocketMessage 1 (Parsed response_no_face)]"]
  have f: "0 < numReconnects (run props0 (step props0 (mounted props0) (SocketError 0))
        [SocketClose 0, SocketOpen 1, SocketMessage 1 (Parsed response_no_face)])"
    by blast
  have g: "numReconnects (run props0 (mounted props0)
      [SocketError 0, SocketClose 0, SocketOpen 1, SocketError 1, SocketClose 1, SocketOpen 2,
       SocketError 2]) = 3"
    using C10_counter_never_reset [of _ props0 "[SocketError 0, SocketClose 0, SocketOpen 1,
       SocketError 1, SocketClose 1, SocketOpen 2, SocketError 2]"]
    by (simp add: maxReconnects_def)
  show ?thesis using e f g by simp
qed

lemma foldl_add_score:
  "foldl (\<lambda>acc e. acc + score e) a xs = a + sum_list (map score xs)"
  by (induction xs arbitrary: a) simp_all

lemma foldl_sub_score:
  "foldl (\<lambda>acc e. acc - score e) a xs = a - sum_list (map score xs)"
  by (induction xs arbitrary: a) simp_all

text \<open>In exact arithmetic the metric is the specification's weighted sum, scaled by 100.\<close>

lemma val_exact: "val exact_ops es = 100 * named_sum es"
  by (simp add: val_def pos_metric_def neg_metric_def named_sum_def exact_ops_def
        foldl_add_score foldl_sub_score)










text \<open>
  Claim C7 does not hold of the code: \<^verbatim>\<open>emotions.sort(...)\<close> sorts the array of the props
  in place. On a list that is not in descending order of score, the array is in another
  order after the render.
\<close>

theorem C7_prop_array_sorted:
  "snd (TopEmotions ops
      [\<lparr>name = ''Joy'', score = 1 / 10\<rparr>, \<lparr>name = ''Calmness'', score = 9 / 10\<rparr>] 3)
     = [\<lparr>name = ''Calmness'', score = 9 / 10\<rparr>, \<lparr>name = ''Joy'', score = 1 / 10\<rparr>]
   \<and> snd (TopEmotions ops
      [\<lparr>name = ''Joy'', score = 1 / 10\<rparr>, \<lparr>name = ''Calmness'', score = 9 / 10\<rparr>] 3)
     \<noteq> [\<lparr>name = ''Joy'', score = 1 / 10\<rparr>, \<lparr>name = ''Calmness'', score = 9 / 10\<rparr>]"
  by (simp add: TopEmotions_def sort_emotions_def Let_def)




end
